theory Spec2Isabelle
  imports Main "HOL-Library.Char_ord"
begin

section \<open>Text: the string operations of the host language that the program calls\<close>

text \<open>
  The program is \<^verbatim>\<open>truth_table_generator.py\<close>. Its logic lives in the class
  \<^verbatim>\<open>LogicalExpression\<close> (\<^verbatim>\<open>extract_variables\<close>, \<^verbatim>\<open>parse_expression\<close>,
  \<^verbatim>\<open>evaluate\<close>) and in four methods of \<^verbatim>\<open>TruthTableGenerator\<close>
  (\<^verbatim>\<open>generate_truth_table\<close>, \<^verbatim>\<open>create_truth_table\<close>, \<^verbatim>\<open>analyze_expression\<close>,
  \<^verbatim>\<open>identify_binary_operation\<close>); the rest of the file draws windows and plots.

  A Python \<^verbatim>\<open>str\<close> is modelled as a \<open>string\<close> holding its UTF-8 bytes. Every
  character the program treats specially is ASCII, except the five logical symbols of
  \<^verbatim>\<open>parse_expression\<close>, which are written as their byte sequences. A one-character
  string such as a variable name is a \<open>char\<close>. The character classes and \<^verbatim>\<open>str.upper\<close>
  are those of ASCII: a text with cased letters, digits or blanks outside ASCII is outside
  the model.
\<close>

definition is_upper :: "char \<Rightarrow> bool" where
  "is_upper c = (c \<in> set ''ABCDEFGHIJKLMNOPQRSTUVWXYZ'')"

definition is_lower :: "char \<Rightarrow> bool" where
  "is_lower c = (c \<in> set ''abcdefghijklmnopqrstuvwxyz'')"

definition is_letter :: "char \<Rightarrow> bool" where
  \<comment> \<open>the character class \<^verbatim>\<open>[A-Za-z]\<close>\<close>
  "is_letter c = (is_upper c \<or> is_lower c)"

definition is_digit :: "char \<Rightarrow> bool" where
  \<comment> \<open>\<^verbatim>\<open>\d\<close> on ASCII\<close>
  "is_digit c = (c \<in> set ''0123456789'')"

definition is_space :: "char \<Rightarrow> bool" where
  \<comment> \<open>\<^verbatim>\<open>\s\<close> and \<^verbatim>\<open>str.strip\<close> on ASCII: tab, line feed, vertical tab, form feed,
      carriage return, the four separators 28 to 31, and the blank\<close>
  "is_space c = (c \<in> set [CHR 0x09, CHR 0x0A, CHR 0x0B, CHR 0x0C, CHR 0x0D,
                            CHR 0x1C, CHR 0x1D, CHR 0x1E, CHR 0x1F, CHR 0x20])"

definition upper_char :: "char \<Rightarrow> char" where
  "upper_char c =
     (case map_of (zip ''abcdefghijklmnopqrstuvwxyz'' ''ABCDEFGHIJKLMNOPQRSTUVWXYZ'') c of
        Some u \<Rightarrow> u
      | None \<Rightarrow> c)"

definition upper :: "string \<Rightarrow> string" where
  \<comment> \<open>\<^verbatim>\<open>str.upper\<close>, exact on ASCII text; other bytes are kept\<close>
  "upper s = map upper_char s"

primrec starts_with :: "string \<Rightarrow> string \<Rightarrow> bool" where
  \<comment> \<open>\<open>starts_with old s\<close>: \<^verbatim>\<open>s.startswith(old)\<close>\<close>
  "starts_with [] s = True"
| "starts_with (p # ps) s = (case s of [] \<Rightarrow> False | c # cs \<Rightarrow> p = c \<and> starts_with ps cs)"

function replace :: "string \<Rightarrow> string \<Rightarrow> string \<Rightarrow> string" where
  \<comment> \<open>\<open>replace old new s\<close>: \<^verbatim>\<open>s.replace(old, new)\<close>, every occurrence from the left,
      occurrences not overlapping; an empty \<open>old\<close> matches before every character and
      at the end\<close>
  "replace old new [] = (if old = [] then new else [])"
| "replace old new (c # cs) =
     (if old = [] then new @ c # replace old new cs
      else if starts_with old (c # cs)
           then new @ replace old new (drop (length old) (c # cs))
           else c # replace old new cs)"
  by pat_completeness auto
termination
  by (relation "measure (\<lambda>(old, new, s). length s)") auto

definition strip :: "string \<Rightarrow> string" where
  \<comment> \<open>\<^verbatim>\<open>str.strip()\<close>\<close>
  "strip s = rev (dropWhile is_space (rev (dropWhile is_space s)))"

section \<open>The class LogicalExpression\<close>

record LogicalExpression =
  expression :: string
  variables :: "char list"
  parsed_expr :: string

definition operators :: "char set" where
  "operators = {CHR ''A'', CHR ''N'', CHR ''D'', CHR ''O'', CHR ''R'',
                CHR ''I'', CHR ''F'', CHR ''T'', CHR ''U'', CHR ''E''}"

definition extract_variables :: "string \<Rightarrow> char list" where
  \<comment> \<open>\<^verbatim>\<open>re.findall(r'[A-Za-z]', expression)\<close>, the members of \<open>operators\<close> dropped,
      the set of the rest sorted\<close>
  "extract_variables expr =
     (let vars_found = filter is_letter expr
      in sorted_list_of_set (set (filter (\<lambda>var. var \<notin> operators) vars_found)))"

definition parse_expression :: "string \<Rightarrow> string" where
  "parse_expression expr0 =
     (let expr = upper expr0;
          expr = replace ''AND'' ''&'' expr;
          expr = replace ''OR'' ''|'' expr;
          expr = replace ''NOT'' ''~'' expr;
          expr = replace ''IMPLIES'' ''>'' expr;
          expr = replace ''IFF'' ''='' expr;
          expr = replace ''->'' ''>'' expr;
          expr = replace ''<->'' ''='' expr;
          expr = replace ''!'' ''~'' expr;
          expr = replace [CHR 0xE2, CHR 0x88, CHR 0xA7] ''&'' expr;
          expr = replace [CHR 0xE2, CHR 0x88, CHR 0xA8] ''|'' expr;
          expr = replace [CHR 0xC2, CHR 0xAC] ''~'' expr;
          expr = replace [CHR 0xE2, CHR 0x86, CHR 0x92] ''>'' expr;
          expr = replace [CHR 0xE2, CHR 0x86, CHR 0x94] ''='' expr
      in expr)"

definition init :: "string \<Rightarrow> LogicalExpression" where
  \<comment> \<open>the constructor \<^verbatim>\<open>LogicalExpression(expression)\<close>\<close>
  "init text =
     (let e = replace '' '' '''' text
      in \<lparr>expression = e, variables = extract_variables e, parsed_expr = parse_expression e\<rparr>)"

section \<open>The host evaluator: what \<^verbatim>\<open>int(eval(expr))\<close> does\<close>

text \<open>
  \<^verbatim>\<open>evaluate\<close> hands a string to Python's \<^verbatim>\<open>eval\<close> and converts the result with
  \<^verbatim>\<open>int\<close>, inside a \<^verbatim>\<open>try\<close> whose bare \<^verbatim>\<open>except\<close> catches everything. The outcome
  of that \<^verbatim>\<open>try\<close> body is an \<open>int option\<close>: \<open>Some n\<close> when it yields \<open>n\<close>, \<open>None\<close>
  when anything is raised (\<^verbatim>\<open>SyntaxError\<close>, \<^verbatim>\<open>NameError\<close>, \<^verbatim>\<open>TypeError\<close>, ...).

  The model below is Python's own grammar and semantics on the expressions built from
  \<^verbatim>\<open>True\<close>, \<^verbatim>\<open>False\<close>, decimal integers, names in capital letters, \<^verbatim>\<open>and\<close>,
  \<^verbatim>\<open>or\<close>, \<^verbatim>\<open>not\<close>, \<^verbatim>\<open>==\<close>, \<^verbatim>\<open><=\<close>, \<^verbatim>\<open><\<close>, parentheses and blanks, which is
  what \<^verbatim>\<open>evaluate\<close> produces from a boolean expression. On every other string (other
  characters, call syntax, the empty tuple, strings longer than 100 characters) the
  outcome is that of a parameter \<open>host\<close>, about which nothing is assumed.
\<close>

datatype token =
  TName string | TNum nat | TTrue | TFalse | TAnd | TOr | TNot
  | TLParen | TRParen | TEqEq | TLtEq | TLt

definition digit_value :: "char \<Rightarrow> nat" where
  "digit_value c = (case map_of (zip ''0123456789'' [0, 1, 2, 3, 4, 5, 6, 7, 8, 9]) c of
                      Some d \<Rightarrow> d
                    | None \<Rightarrow> 0)"

definition decimal :: "string \<Rightarrow> nat" where
  "decimal w = foldl (\<lambda>n c. 10 * n + digit_value c) 0 w"

definition word_token :: "string \<Rightarrow> token option" where
  \<comment> \<open>a maximal run of letters and digits: a keyword, an integer without a leading zero,
      or a name in capitals (no such name is bound where \<^verbatim>\<open>eval\<close> runs); \<open>None\<close>
      when the word is left to the host\<close>
  "word_token w =
     (if w = ''True'' then Some TTrue
      else if w = ''False'' then Some TFalse
      else if w = ''and'' then Some TAnd
      else if w = ''or'' then Some TOr
      else if w = ''not'' then Some TNot
      else if w \<noteq> [] \<and> list_all is_digit w \<and> hd w \<noteq> CHR ''0'' then Some (TNum (decimal w))
      else if w \<noteq> [] \<and> is_upper (hd w) \<and> list_all (\<lambda>c. is_upper c \<or> is_digit c) w
           then Some (TName w)
      else None)"

definition flush :: "string \<Rightarrow> token list option \<Rightarrow> token list option" where
  \<comment> \<open>emit the word read so far (held reversed) in front of the tokens that follow\<close>
  "flush w r =
     (if w = [] then r
      else case word_token (rev w) of
             None \<Rightarrow> None
           | Some t \<Rightarrow> map_option ((#) t) r)"

fun scan :: "string \<Rightarrow> string \<Rightarrow> token list option" where
  \<comment> \<open>the tokens of a string; \<open>None\<close> when it has a character or word outside the model\<close>
  "scan w [] = flush w (Some [])"
| "scan w (c # cs) =
     (if is_letter c \<or> is_digit c then scan (c # w) cs
      else if c = CHR '' '' then flush w (scan [] cs)
      else if c = CHR ''('' then flush w (map_option ((#) TLParen) (scan [] cs))
      else if c = CHR '')'' then flush w (map_option ((#) TRParen) (scan [] cs))
      else if c = CHR ''='' then
        (case cs of
           [] \<Rightarrow> None
         | d # ds \<Rightarrow> if d = CHR ''='' then flush w (map_option ((#) TEqEq) (scan [] ds)) else None)
      else if c = CHR ''<'' then
        (case cs of
           [] \<Rightarrow> flush w (Some [TLt])
         | d # ds \<Rightarrow> if d = CHR ''='' then flush w (map_option ((#) TLtEq) (scan [] ds))
                    else flush w (map_option ((#) TLt) (scan [] cs)))
      else None)"

definition ends_atom :: "token \<Rightarrow> bool" where
  "ends_atom t = (case t of TName _ \<Rightarrow> True | TNum _ \<Rightarrow> True | TTrue \<Rightarrow> True
                  | TFalse \<Rightarrow> True | TRParen \<Rightarrow> True | _ \<Rightarrow> False)"

fun call_or_unit :: "token list \<Rightarrow> bool" where
  \<comment> \<open>an opening parenthesis right after an operand (a call) or right before a closing
      one (the empty tuple): both are left to the host\<close>
  "call_or_unit (a # b # ts) =
     ((b = TLParen \<and> ends_atom a) \<or> (a = TLParen \<and> b = TRParen) \<or> call_or_unit (b # ts))"
| "call_or_unit ts = False"

datatype pyval = PBool bool | PInt int

datatype cmpop = Eq | LtE | Lt

datatype pyexpr =
  Name string
  | Const pyval
  | NotE pyexpr
  | AndE pyexpr pyexpr
  | OrE pyexpr pyexpr
  | Compare pyexpr cmpop pyexpr

datatype item = Tok token | Sub pyexpr

definition parse_atom :: "item \<Rightarrow> pyexpr option" where
  "parse_atom x =
     (case x of
        Sub e \<Rightarrow> Some e
      | Tok t \<Rightarrow> (case t of
                   TTrue \<Rightarrow> Some (Const (PBool True))
                 | TFalse \<Rightarrow> Some (Const (PBool False))
                 | TNum n \<Rightarrow> Some (Const (PInt (int n)))
                 | TName s \<Rightarrow> Some (Name s)
                 | _ \<Rightarrow> None))"

definition parse_cmpop :: "item \<Rightarrow> cmpop option" where
  "parse_cmpop x =
     (case x of
        Sub e \<Rightarrow> None
      | Tok t \<Rightarrow> (case t of TEqEq \<Rightarrow> Some Eq | TLtEq \<Rightarrow> Some LtE | TLt \<Rightarrow> Some Lt | _ \<Rightarrow> None))"

fun parse_chain :: "pyexpr \<Rightarrow> item list \<Rightarrow> pyexpr list option" where
  \<comment> \<open>the comparisons of a chain \<^verbatim>\<open>a op b op c ...\<close> after its first operand\<close>
  "parse_chain left [] = Some []"
| "parse_chain left [x] = None"
| "parse_chain left (x # y # rest) =
     (case parse_cmpop x of
        None \<Rightarrow> None
      | Some operator \<Rightarrow>
          (case parse_atom y of
             None \<Rightarrow> None
           | Some right \<Rightarrow> map_option ((#) (Compare left operator right)) (parse_chain right rest)))"

definition parse_comparison :: "item list \<Rightarrow> pyexpr option" where
  \<comment> \<open>\<^verbatim>\<open>comparison: operand (op operand)*\<close>; a chain is the conjunction of its
      comparisons, which have no effects to repeat\<close>
  "parse_comparison xs =
     (case xs of
        [] \<Rightarrow> None
      | x # rest \<Rightarrow>
          (case parse_atom x of
             None \<Rightarrow> None
           | Some left \<Rightarrow>
               (case parse_chain left rest of
                  None \<Rightarrow> None
                | Some [] \<Rightarrow> Some left
                | Some (c # cs) \<Rightarrow> Some (foldl AndE c cs))))"

fun parse_inversion :: "item list \<Rightarrow> pyexpr option" where
  \<comment> \<open>\<^verbatim>\<open>inversion: 'not' inversion | comparison\<close>\<close>
  "parse_inversion [] = parse_comparison []"
| "parse_inversion (x # xs) =
     (if x = Tok TNot then map_option NotE (parse_inversion xs) else parse_comparison (x # xs))"

fun split_at :: "token \<Rightarrow> item list \<Rightarrow> item list \<Rightarrow> item list list" where
  \<comment> \<open>the pieces between the occurrences of a keyword; the piece being read is held
      reversed\<close>
  "split_at t cur [] = [rev cur]"
| "split_at t cur (x # xs) =
     (if x = Tok t then rev cur # split_at t [] xs else split_at t (x # cur) xs)"

definition join :: "(pyexpr \<Rightarrow> pyexpr \<Rightarrow> pyexpr) \<Rightarrow> pyexpr option list \<Rightarrow> pyexpr option" where
  "join f ps = (case those ps of None \<Rightarrow> None | Some [] \<Rightarrow> None | Some (e # es) \<Rightarrow> Some (foldl f e es))"

definition parse_conjunction :: "item list \<Rightarrow> pyexpr option" where
  \<comment> \<open>\<^verbatim>\<open>conjunction: inversion ('and' inversion)*\<close>\<close>
  "parse_conjunction xs = join AndE (map parse_inversion (split_at TAnd [] xs))"

definition parse_disjunction :: "item list \<Rightarrow> pyexpr option" where
  \<comment> \<open>\<^verbatim>\<open>disjunction: conjunction ('or' conjunction)*\<close>\<close>
  "parse_disjunction xs = join OrE (map parse_conjunction (split_at TOr [] xs))"

fun parse_tokens :: "item list list \<Rightarrow> item list \<Rightarrow> token list \<Rightarrow> pyexpr option" where
  \<comment> \<open>\<open>parse_tokens stack cur ts\<close>: \<open>cur\<close> holds, reversed, the items of the innermost
      open parenthesis, \<open>stack\<close> those of the enclosing ones; a closed group is parsed at
      once and becomes one operand. \<open>None\<close> is \<^verbatim>\<open>SyntaxError\<close>.\<close>
  "parse_tokens stack cur [] = (if stack = [] then parse_disjunction (rev cur) else None)"
| "parse_tokens stack cur (t # ts) =
     (if t = TLParen then parse_tokens (cur # stack) [] ts
      else if t = TRParen then
        (case stack of
           [] \<Rightarrow> None
         | outer # stack' \<Rightarrow>
             (case parse_disjunction (rev cur) of
                None \<Rightarrow> None
              | Some e \<Rightarrow> parse_tokens stack' (Sub e # outer) ts))
      else parse_tokens stack (Tok t # cur) ts)"

definition truthy :: "pyval \<Rightarrow> bool" where
  "truthy v = (case v of PBool b \<Rightarrow> b | PInt n \<Rightarrow> n \<noteq> 0)"

definition int_of :: "pyval \<Rightarrow> int" where
  \<comment> \<open>\<^verbatim>\<open>int(result)\<close>\<close>
  "int_of v = (case v of PBool b \<Rightarrow> (if b then 1 else 0) | PInt n \<Rightarrow> n)"

definition compare :: "cmpop \<Rightarrow> pyval \<Rightarrow> pyval \<Rightarrow> bool" where
  \<comment> \<open>\<^verbatim>\<open>bool\<close> is a subtype of \<^verbatim>\<open>int\<close>: values compare as integers\<close>
  "compare operator v w =
     (case operator of
        Eq \<Rightarrow> int_of v = int_of w
      | LtE \<Rightarrow> int_of v \<le> int_of w
      | Lt \<Rightarrow> int_of v < int_of w)"

fun eval :: "pyexpr \<Rightarrow> pyval option" where
  \<comment> \<open>\<open>None\<close> is a raised exception; \<^verbatim>\<open>and\<close> and \<^verbatim>\<open>or\<close> return one of their
      operands and do not evaluate the right one when the left one decides\<close>
  "eval (Name s) = None"
| "eval (Const v) = Some v"
| "eval (NotE e) = map_option (\<lambda>v. PBool (\<not> truthy v)) (eval e)"
| "eval (AndE a b) = (case eval a of None \<Rightarrow> None | Some v \<Rightarrow> if truthy v then eval b else Some v)"
| "eval (OrE a b) = (case eval a of None \<Rightarrow> None | Some v \<Rightarrow> if truthy v then Some v else eval b)"
| "eval (Compare a operator b) =
     (case eval a of
        None \<Rightarrow> None
      | Some v \<Rightarrow> (case eval b of None \<Rightarrow> None | Some w \<Rightarrow> Some (PBool (compare operator v w))))"

definition int_eval :: "(string \<Rightarrow> int option) \<Rightarrow> string \<Rightarrow> int option" where
  \<comment> \<open>the body of the \<^verbatim>\<open>try\<close>: \<^verbatim>\<open>int(eval(expr))\<close>\<close>
  "int_eval host s =
     (if 100 < length s then host s
      else case scan [] s of
             None \<Rightarrow> host s
           | Some ts \<Rightarrow>
               if call_or_unit ts then host s
               else (case parse_tokens [] [] ts of
                       None \<Rightarrow> None
                     | Some e \<Rightarrow> map_option int_of (eval e)))"

section \<open>LogicalExpression.evaluate\<close>

datatype py_error = KeyError

definition digit_of :: "bool \<Rightarrow> string" where
  \<comment> \<open>\<^verbatim>\<open>str(int(b))\<close>\<close>
  "digit_of b = (if b then ''1'' else ''0'')"

fun substitute :: "char list \<Rightarrow> (char \<rightharpoonup> bool) \<Rightarrow> string \<Rightarrow> py_error + string" where
  \<comment> \<open>the loop \<^verbatim>\<open>for var in self.variables\<close>; \<^verbatim>\<open>variable_values[var]\<close> raises
      \<^verbatim>\<open>KeyError\<close> on a missing key, outside the \<^verbatim>\<open>try\<close>\<close>
  "substitute [] variable_values expr = Inr expr"
| "substitute (var # vars) variable_values expr =
     (case variable_values var of
        None \<Rightarrow> Inl KeyError
      | Some b \<Rightarrow> substitute vars variable_values (replace [var] (digit_of b) expr))"

definition match_implication :: "string \<Rightarrow> (string \<times> string \<times> string) option" where
  \<comment> \<open>a match of \<^verbatim>\<open>(\d+)\s*<=\s*(\d+)\<close> at the start of the string: the two groups
      and what follows the match\<close>
  "match_implication s =
     (let d1 = takeWhile is_digit s;
          s1 = dropWhile is_space (dropWhile is_digit s)
      in if d1 = [] \<or> \<not> starts_with ''<='' s1 then None
         else (let s2 = dropWhile is_space (drop 2 s1);
                   d2 = takeWhile is_digit s2
               in if d2 = [] then None else Some (d1, d2, dropWhile is_digit s2)))"

function sub_implication :: "string \<Rightarrow> string" where
  \<comment> \<open>\<^verbatim>\<open>re.sub(r'(\d+)\s*<=\s*(\d+)', r'(not \1 or \2)', expr)\<close>: the matches from the
      left, not overlapping\<close>
  "sub_implication [] = []"
| "sub_implication (c # cs) =
     (case match_implication (c # cs) of
        None \<Rightarrow> c # sub_implication cs
      | Some (d1, d2, rest) \<Rightarrow> ''(not '' @ d1 @ '' or '' @ d2 @ '')'' @ sub_implication rest)"
  by pat_completeness auto
termination
proof (relation "measure length")
  show "wf (measure length)"
    by simp
next
  fix c :: char and cs :: string
  show "(cs, c # cs) \<in> measure length"
    by simp
next
  fix c :: char and cs :: string and m d1 y d2 rest
  assume m: "match_implication (c # cs) = Some m" and y: "(d1, y) = m" "(d2, rest) = y"
  let ?s = "c # cs"
  let ?s1 = "dropWhile is_space (dropWhile is_digit ?s)"
  let ?s2 = "dropWhile is_space (drop 2 ?s1)"
  from m y have d1: "takeWhile is_digit ?s \<noteq> []"
    and rest: "rest = dropWhile is_digit ?s2"
    by (auto simp: match_implication_def Let_def split: if_splits)
  have "length rest \<le> length ?s2"
    unfolding rest by (rule length_dropWhile_le)
  also have "\<dots> \<le> length (drop 2 ?s1)"
    by (rule length_dropWhile_le)
  also have "\<dots> \<le> length ?s1"
    by simp
  also have "\<dots> \<le> length (dropWhile is_digit ?s)"
    by (rule length_dropWhile_le)
  also have "\<dots> < length ?s"
  proof -
    have "length ?s = length (takeWhile is_digit ?s) + length (dropWhile is_digit ?s)"
      by (metis length_append takeWhile_dropWhile_id)
    with d1 show ?thesis by simp
  qed
  finally show "(rest, c # cs) \<in> measure length"
    by simp
qed

definition eval_string :: "LogicalExpression \<Rightarrow> (char \<rightharpoonup> bool) \<Rightarrow> py_error + string" where
  \<comment> \<open>the part of \<^verbatim>\<open>evaluate\<close> before the call of \<^verbatim>\<open>eval\<close>: the string handed to it\<close>
  "eval_string self variable_values =
     (case substitute (variables self) variable_values (parsed_expr self) of
        Inl err \<Rightarrow> Inl err
      | Inr expr0 \<Rightarrow>
          (let expr = replace ''&'' '' and '' expr0;
               expr = replace ''|'' '' or '' expr;
               expr = replace ''~'' '' not '' expr;
               expr = replace ''>'' '' <= '' expr;
               expr = replace ''='' '' == '' expr;
               expr = sub_implication expr;
               expr = replace ''0'' ''False'' (replace ''1'' ''True'' expr)
           in Inr expr))"

definition evaluate ::
  "(string \<Rightarrow> int option) \<Rightarrow> LogicalExpression \<Rightarrow> (char \<rightharpoonup> bool) \<Rightarrow> py_error + int" where
  \<comment> \<open>the \<^verbatim>\<open>try\<close>: the integer of the result, and 0 from the bare \<^verbatim>\<open>except\<close>\<close>
  "evaluate host self variable_values =
     (case eval_string self variable_values of
        Inl err \<Rightarrow> Inl err
      | Inr expr \<Rightarrow>
          (case int_eval host expr of
             Some result \<Rightarrow> Inr result
           | None \<Rightarrow> Inr 0))"

section \<open>TruthTableGenerator: the table and its analysis\<close>

fun product :: "'a list list \<Rightarrow> 'a list list" where
  \<comment> \<open>\<^verbatim>\<open>itertools.product(*pools)\<close>: the rightmost pool advances fastest\<close>
  "product [] = [[]]"
| "product (pool # pools) = concat (map (\<lambda>x. map ((#) x) (product pools)) pool)"

definition int_of_bool :: "bool \<Rightarrow> int" where
  "int_of_bool b = (if b then 1 else 0)"

definition make_row ::
  "(string \<Rightarrow> int option) \<Rightarrow> LogicalExpression \<Rightarrow> bool list \<Rightarrow> py_error + int list" where
  \<comment> \<open>the body of the loop of \<^verbatim>\<open>create_truth_table\<close>: \<^verbatim>\<open>dict(zip(variables, combination))\<close>
      (a later pair wins), the evaluation, and the row\<close>
  "make_row host e combination =
     (let var_dict = Map.empty(variables e [\<mapsto>] combination)
      in case evaluate host e var_dict of
           Inl err \<Rightarrow> Inl err
         | Inr result \<Rightarrow> Inr (map int_of_bool combination @ [result]))"

fun make_rows ::
  "(string \<Rightarrow> int option) \<Rightarrow> LogicalExpression \<Rightarrow> bool list list \<Rightarrow> py_error + int list list" where
  \<comment> \<open>the loop over the combinations, stopping at the first exception\<close>
  "make_rows host e [] = Inr []"
| "make_rows host e (combination # rest) =
     (case make_row host e combination of
        Inl err \<Rightarrow> Inl err
      | Inr row \<Rightarrow> (case make_rows host e rest of Inl err \<Rightarrow> Inl err | Inr rows \<Rightarrow> Inr (row # rows)))"

definition create_truth_table ::
  "(string \<Rightarrow> int option) \<Rightarrow> LogicalExpression \<Rightarrow> py_error + int list list" where
  \<comment> \<open>the value of \<^verbatim>\<open>self.truth_table_data\<close> after the call\<close>
  "create_truth_table host e =
     (let n_vars = length (variables e)
      in make_rows host e (product (replicate n_vars [False, True])))"

definition results_of :: "int list list \<Rightarrow> int list" where
  \<comment> \<open>\<^verbatim>\<open>[row[-1] for row in self.truth_table_data]\<close>; every row the program builds
      ends with its result\<close>
  "results_of truth_table_data = map last truth_table_data"

datatype classification = Tautology | Contradiction | Contingency

definition classify :: "int list list \<Rightarrow> classification" where
  \<comment> \<open>the classification branch of \<^verbatim>\<open>analyze_expression\<close>\<close>
  "classify truth_table_data =
     (let results = results_of truth_table_data;
          true_count = sum_list results;
          total_count = int (length results);
          false_count = total_count - true_count
      in if true_count = total_count then Tautology
         else if false_count = total_count then Contradiction
         else Contingency)"

definition operations :: "(int list \<times> string) list" where
  "operations =
     [([0, 0, 0, 0], ''Contradiction (False)''),
      ([0, 0, 0, 1], ''Conjunction (AND)''),
      ([0, 0, 1, 0], ''Material non-implication''),
      ([0, 0, 1, 1], ''First projection''),
      ([0, 1, 0, 0], ''Converse non-implication''),
      ([0, 1, 0, 1], ''Second projection''),
      ([0, 1, 1, 0], ''Exclusive disjunction (XOR)''),
      ([0, 1, 1, 1], ''Disjunction (OR)''),
      ([1, 0, 0, 0], ''Joint denial (NOR)''),
      ([1, 0, 0, 1], ''Biconditional (XNOR)''),
      ([1, 0, 1, 0], ''Negation (NOT B)''),
      ([1, 0, 1, 1], ''Converse implication''),
      ([1, 1, 0, 0], ''Negation (NOT A)''),
      ([1, 1, 0, 1], ''Material implication''),
      ([1, 1, 1, 0], ''Alternative denial (NAND)''),
      ([1, 1, 1, 1], ''Tautology (True)'')]"

definition identify_binary_operation :: "int list list \<Rightarrow> string" where
  \<comment> \<open>\<^verbatim>\<open>operations.get(pattern, "Custom operation")\<close>\<close>
  "identify_binary_operation truth_table_data =
     (let results = results_of truth_table_data
      in case map_of operations results of
           Some name \<Rightarrow> name
         | None \<Rightarrow> ''Custom operation'')"

record analysis =
  classification_of :: classification
  satisfiable :: bool
  binary_operation :: "string option"

definition analyze_expression :: "LogicalExpression \<Rightarrow> int list list \<Rightarrow> analysis option" where
  \<comment> \<open>what the analysis text reports; \<open>None\<close> is the early return on an empty table\<close>
  "analyze_expression e truth_table_data =
     (if truth_table_data = [] then None
      else Some \<lparr>classification_of = classify truth_table_data,
                 satisfiable = (0 < sum_list (results_of truth_table_data)),
                 binary_operation =
                   (if length (variables e) = 2
                    then Some (identify_binary_operation truth_table_data) else None)\<rparr>)"

datatype outcome =
  InputRequired
  | ExpressionError py_error
  | Generated "int list list" "analysis option"

definition generate_truth_table :: "(string \<Rightarrow> int option) \<Rightarrow> string \<Rightarrow> outcome" where
  \<comment> \<open>the warning for an empty entry or the placeholder; the error dialog of the
      \<^verbatim>\<open>except Exception\<close> branch; otherwise the table and its analysis\<close>
  "generate_truth_table host entry =
     (let expression_text = strip entry
      in if expression_text = [] \<or> expression_text = ''Example: A AND (B OR NOT C)''
         then InputRequired
         else (let e = init expression_text
               in case create_truth_table host e of
                    Inl err \<Rightarrow> ExpressionError err
                  | Inr truth_table_data \<Rightarrow>
                      Generated truth_table_data (analyze_expression e truth_table_data)))"

definition no_host :: "string \<Rightarrow> int option" where
  \<comment> \<open>a host in which every string outside the modelled grammar raises; it stands for
      the host where the strings evaluated are all inside the grammar\<close>
  "no_host s = None"

section \<open>Properties of the variable list\<close>

lemma set_replace_char:
  "old = [c] \<Longrightarrow> new = [] \<Longrightarrow> set (replace old new s) = set s - {c}"
  by (induction old new s rule: replace.induct) auto

lemma extract_variables_set:
  "set (extract_variables s) = {c \<in> set s. is_letter c \<and> c \<notin> operators}"
  by (auto simp: extract_variables_def Let_def)

lemma blank_no_letter: "\<not> is_letter (CHR '' '')"
  by (simp add: is_letter_def is_upper_def is_lower_def)

lemma operators_letters: "operators = set ''ADEFINORTU''"
  by (auto simp: operators_def)

text \<open>
  C9. The variable list of every expression is sorted and free of duplicates; it holds
  none of the capital letters A, D, E, F, I, N, O, R, T, U, and it holds every other letter
  of the text, the small letters included.
\<close>

theorem variables_sorted_distinct_letters:
  "sorted (variables (init text)) \<and> distinct (variables (init text))
   \<and> set (variables (init text)) = {c \<in> set text. is_letter c} - set ''ADEFINORTU''"
proof -
  have "set (variables (init text)) = {c \<in> set text - {CHR '' ''}. is_letter c \<and> c \<notin> operators}"
    by (simp add: init_def Let_def extract_variables_set set_replace_char)
  also have "\<dots> = {c \<in> set text. is_letter c} - set ''ADEFINORTU''"
    using blank_no_letter unfolding operators_letters by blast
  finally show ?thesis
    by (simp add: init_def Let_def extract_variables_def)
qed

theorem variables_sorted_distinct_letters_witness:
  "sorted (variables (init ''a AND (B OR NOT c)''))
   \<and> set (variables (init ''a AND (B OR NOT c)'')) = {CHR ''a'', CHR ''B'', CHR ''c''}"
proof -
  have "{c \<in> set ''a AND (B OR NOT c)''. is_letter c} - set ''ADEFINORTU''
        = {CHR ''a'', CHR ''B'', CHR ''c''}"
    by (auto simp: is_letter_def is_upper_def is_lower_def)
  with variables_sorted_distinct_letters [of "''a AND (B OR NOT c)''"] show ?thesis
    by simp
qed

section \<open>Properties of the enumeration\<close>

lemma product_length: "cs \<in> set (product pools) \<Longrightarrow> length cs = length pools"
  by (induction pools arbitrary: cs) auto

lemma product_replicate_Suc:
  "product (replicate (Suc k) [False, True]) =
     map ((#) False) (product (replicate k [False, True]))
     @ map ((#) True) (product (replicate k [False, True]))"
  by simp

lemma product_count: "length (product (replicate k [False, True])) = 2 ^ k"
  by (induction k) simp_all

lemma product_two:
  "product (replicate 2 [False, True]) =
     [[False, False], [False, True], [True, False], [True, True]]"
  by (simp add: numeral_2_eq_2)

lemma product_nth:
  "i < 2 ^ k \<Longrightarrow> b < k \<Longrightarrow> product (replicate k [False, True]) ! i ! b = bit i (k - 1 - b)"
proof (induction k arbitrary: i b)
  case 0
  then show ?case by simp
next
  case (Suc k)
  let ?P = "product (replicate k [False, True])"
  have len: "length ?P = 2 ^ k" by (rule product_count)
  show ?case
  proof (cases "i < 2 ^ k")
    case True
    then have row: "product (replicate (Suc k) [False, True]) ! i = False # ?P ! i"
      unfolding product_replicate_Suc by (simp add: nth_append len)
    show ?thesis
    proof (cases b)
      case 0
      with True show ?thesis
        by (simp add: row bit_iff_odd del: replicate_Suc product.simps)
    next
      case (Suc b')
      with Suc.prems have "b' < k" by simp
      with Suc.IH [OF True this] Suc show ?thesis
        by (simp add: row del: replicate_Suc product.simps)
    qed
  next
    case False
    then have ge: "2 ^ k \<le> i" by simp
    with Suc.prems have lt: "i - 2 ^ k < 2 ^ k" by simp
    from False have row: "product (replicate (Suc k) [False, True]) ! i = True # ?P ! (i - 2 ^ k)"
      using lt unfolding product_replicate_Suc by (simp add: nth_append len)
    show ?thesis
    proof (cases b)
      case 0
      have "i div 2 ^ k = 1"
        using ge Suc.prems(1) by (intro div_nat_eqI) simp_all
      then show ?thesis using 0
        by (simp add: row bit_iff_odd del: replicate_Suc product.simps)
    next
      case (Suc b')
      with Suc.prems have b': "b' < k" by simp
      have "bit (i - 2 ^ k) (k - 1 - b') = bit i (k - 1 - b')"
      proof -
        have "i mod 2 ^ k = i - 2 ^ k"
          using ge lt by (simp add: le_mod_geq)
        then have "i - 2 ^ k = take_bit k i"
          by (simp add: take_bit_eq_mod)
        then show ?thesis using b' by (simp add: bit_take_bit_iff)
      qed
      with Suc.IH [OF lt b'] Suc show ?thesis
        by (simp add: row del: replicate_Suc product.simps)
    qed
  qed
qed

subsection \<open>No evaluation of the table raises\<close>

lemma substitute_total:
  "set vars \<subseteq> dom vals \<Longrightarrow> \<exists>s. substitute vars vals expr = Inr s"
  by (induction vars arbitrary: expr) auto

lemma substitute_missing:
  "\<not> set vars \<subseteq> dom vals \<Longrightarrow> substitute vars vals expr = Inl KeyError"
  by (induction vars arbitrary: expr) (auto split: option.splits)

lemma eval_string_total:
  "set (variables e) \<subseteq> dom vals \<Longrightarrow> \<exists>s. eval_string e vals = Inr s"
  using substitute_total [of "variables e" vals "parsed_expr e"]
  by (auto simp: eval_string_def Let_def)

lemma evaluate_of_eval_string:
  "eval_string e vals = Inr s \<Longrightarrow>
   evaluate host e vals = Inr (case int_eval host s of Some n \<Rightarrow> n | None \<Rightarrow> 0)"
  by (simp add: evaluate_def split: option.splits)

lemma make_row_total:
  assumes "length c = length (variables e)"
  shows "\<exists>r. make_row host e c = Inr (map int_of_bool c @ [r])"
proof -
  have "dom (Map.empty(variables e [\<mapsto>] c)) = set (variables e)"
    using assms by simp
  then obtain s where "eval_string e (Map.empty(variables e [\<mapsto>] c)) = Inr s"
    using eval_string_total [of e "Map.empty(variables e [\<mapsto>] c)"] by auto
  then show ?thesis
    by (simp add: make_row_def evaluate_of_eval_string)
qed

lemma make_rows_total:
  assumes "\<forall>c \<in> set cs. length c = length (variables e)"
  shows "\<exists>rows. make_rows host e cs = Inr rows \<and> length rows = length cs
           \<and> (\<forall>i < length cs. \<exists>r. rows ! i = map int_of_bool (cs ! i) @ [r])"
  using assms
proof (induction cs)
  case Nil
  then show ?case by simp
next
  case (Cons c cs)
  then obtain rows where rows: "make_rows host e cs = Inr rows" "length rows = length cs"
      "\<forall>i < length cs. \<exists>r. rows ! i = map int_of_bool (cs ! i) @ [r]"
    by auto
  from Cons.prems obtain r where r: "make_row host e c = Inr (map int_of_bool c @ [r])"
    using make_row_total [of c e host] by auto
  have "\<forall>i < length (c # cs).
          \<exists>r'. ((map int_of_bool c @ [r]) # rows) ! i = map int_of_bool ((c # cs) ! i) @ [r']"
    using rows(3) by (auto simp: nth_Cons split: nat.splits)
  with rows r show ?case by simp
qed

lemma create_truth_table_total:
  "\<exists>rows. create_truth_table host e = Inr rows \<and> length rows = 2 ^ length (variables e)
     \<and> (\<forall>i < 2 ^ length (variables e). \<exists>r.
           rows ! i
           = map int_of_bool (product (replicate (length (variables e)) [False, True]) ! i) @ [r])"
proof -
  let ?cs = "product (replicate (length (variables e)) [False, True])"
  have "\<forall>c \<in> set ?cs. length c = length (variables e)"
    using product_length [of _ "replicate (length (variables e)) [False, True]"] by simp
  from make_rows_total [OF this, of host]
  show ?thesis by (simp add: create_truth_table_def Let_def product_count)
qed

text \<open>
  C1. For every expression, with \<open>k\<close> the size of its variable list, the truth table has
  exactly \<open>2 ^ k\<close> rows, one per assignment: row \<open>i\<close> holds, for the \<open>b\<close>-th variable, bit
  \<open>k - 1 - b\<close> of \<open>i\<close> (the first variable is the most significant bit, 0 is false and 1
  is true), followed by the result. The first row is the all-false assignment, the last
  one the all-true assignment, and with two variables the rows run (F,F), (F,T), (T,F),
  (T,T).
\<close>

theorem create_truth_table_enumeration:
  "let k = length (variables (init text)) in
   \<exists>rows. create_truth_table host (init text) = Inr rows
     \<and> length rows = 2 ^ k
     \<and> (\<forall>i < 2 ^ k. length (rows ! i) = k + 1
          \<and> (\<forall>b < k. rows ! i ! b = (if bit i (k - 1 - b) then 1 else 0)))
     \<and> take k (rows ! 0) = replicate k 0
     \<and> take k (rows ! (2 ^ k - 1)) = replicate k 1
     \<and> (k = 2 \<longrightarrow> map (take 2) rows = [[0, 0], [0, 1], [1, 0], [1, 1]])"
proof -
  define k where "k = length (variables (init text))"
  let ?cs = "product (replicate k [False, True])"
  obtain rows where table: "create_truth_table host (init text) = Inr rows"
    and count: "length rows = 2 ^ k"
    and row: "\<forall>i < 2 ^ k. \<exists>r. rows ! i = map int_of_bool (?cs ! i) @ [r]"
    using create_truth_table_total [of host "init text"] unfolding k_def by blast
  have len: "length (?cs ! i) = k" if "i < 2 ^ k" for i
    using that product_length [of "?cs ! i" "replicate k [False, True]"]
    by (simp add: product_count)
  have cell: "rows ! i ! b = (if bit i (k - 1 - b) then 1 else 0)" if "i < 2 ^ k" "b < k" for i b
  proof -
    from row that obtain r where "rows ! i = map int_of_bool (?cs ! i) @ [r]" by blast
    then show ?thesis
      using that len [OF that(1)] product_nth [OF that]
      by (simp add: nth_append int_of_bool_def)
  qed
  have width: "length (rows ! i) = k + 1" if "i < 2 ^ k" for i
    using row that len [OF that] by fastforce
  have first: "take k (rows ! 0) = replicate k 0"
  proof (rule nth_equalityI)
    show "length (take k (rows ! 0)) = length (replicate k (0::int))"
      using width [of 0] by simp
  next
    fix b assume "b < length (take k (rows ! 0))"
    then have "b < k" by simp
    then show "take k (rows ! 0) ! b = replicate k 0 ! b"
      using cell [of 0 b] by simp
  qed
  have final: "take k (rows ! (2 ^ k - 1)) = replicate k 1"
  proof (rule nth_equalityI)
    show "length (take k (rows ! (2 ^ k - 1))) = length (replicate k (1::int))"
      using width [of "2 ^ k - 1"] by simp
  next
    fix b assume "b < length (take k (rows ! (2 ^ k - 1)))"
    then have b: "b < k" by simp
    have "(2 ^ k - 1 :: nat) = mask k"
      by (simp only: mask_eq_exp_minus_1)
    moreover have "bit (mask k :: nat) (k - 1 - b)"
      using b by (simp add: bit_mask_iff)
    ultimately have "bit (2 ^ k - 1 :: nat) (k - 1 - b)"
      by simp
    then show "take k (rows ! (2 ^ k - 1)) ! b = replicate k 1 ! b"
      using cell [of "2 ^ k - 1" b] b by simp
  qed
  have two: "map (take 2) rows = [[0, 0], [0, 1], [1, 0], [1, 1]]" if "k = 2"
  proof (rule nth_equalityI)
    show "length (map (take 2) rows) = length [[0, 0], [0, 1], [1, 0], [1, 1::int]]"
      using count that by simp
  next
    fix i assume "i < length (map (take 2) rows)"
    then have i: "i < 4" using count that by simp
    then have "i < 2 ^ k" using that by simp
    with row obtain r where "rows ! i = map int_of_bool (?cs ! i) @ [r]" by blast
    then have "take 2 (rows ! i) = map int_of_bool (?cs ! i)"
      using len [OF \<open>i < 2 ^ k\<close>] that by simp
    moreover from i have "i = 0 \<or> i = 1 \<or> i = 2 \<or> i = 3" by arith
    ultimately show "map (take 2) rows ! i = [[0, 0], [0, 1], [1, 0], [1, 1]] ! i"
      using i count that by (auto simp: product_two int_of_bool_def)
  qed
  have cells: "\<forall>i < 2 ^ k. length (rows ! i) = k + 1
      \<and> (\<forall>b < k. rows ! i ! b = (if bit i (k - 1 - b) then 1 else 0))"
    using cell width by simp
  show ?thesis
    unfolding Let_def k_def [symmetric]
  proof (intro exI [of _ rows] conjI impI)
    show "map (take 2) rows = [[0, 0], [0, 1], [1, 0], [1, 1]]" if "k = 2"
      using that by (rule two)
  qed (fact table count cells first final)+
qed

theorem create_truth_table_enumeration_witness:
  "\<exists>rows. create_truth_table no_host (init ''B AND C'') = Inr rows
     \<and> length rows = 4
     \<and> rows ! 2 ! 0 = 1 \<and> rows ! 2 ! 1 = 0
     \<and> map (take 2) rows = [[0, 0], [0, 1], [1, 0], [1, 1]]"
proof -
  have k: "length (variables (init ''B AND C'')) = 2"
    by code_simp
  from create_truth_table_enumeration [of "''B AND C''" no_host]
  obtain rows where table: "create_truth_table no_host (init ''B AND C'') = Inr rows"
    and count: "length rows = 2 ^ 2"
    and cells: "\<forall>i < (2::nat) ^ 2. length (rows ! i) = 2 + 1
         \<and> (\<forall>b < 2. rows ! i ! b = (if bit i (2 - 1 - b) then 1 else 0))"
    and two: "(2::nat) = 2 \<longrightarrow> map (take 2) rows = [[0, 0], [0, 1], [1, 0], [1, 1]]"
    unfolding Let_def k by (elim exE conjE)
  from cells have "rows ! 2 ! 0 = (if bit (2::nat) (2 - 1 - 0) then 1 else 0)"
    and "rows ! 2 ! 1 = (if bit (2::nat) (2 - 1 - 1) then 1 else 0)"
    by simp_all
  then have "rows ! 2 ! 0 = 1" and "rows ! 2 ! 1 = 0"
    by (simp_all add: bit_iff_odd)
  with table count two show ?thesis by simp
qed

section \<open>The enumeration has no ceiling\<close>



section \<open>Properties of evaluate\<close>

text \<open>
  C10, as the program has it. For every expression and every assignment that has a value
  for each variable of the list, \<^verbatim>\<open>evaluate\<close> raises nothing and returns an integer:
  the integer of what the host evaluation yields, and 0 whenever that evaluation fails
  for any reason. With an assignment that lacks a variable of the list it raises
  \<^verbatim>\<open>KeyError\<close>.
\<close>

theorem evaluate_returns_or_key_error:
  "(set (variables (init text)) \<subseteq> dom variable_values \<longrightarrow>
      (\<exists>expr. eval_string (init text) variable_values = Inr expr
         \<and> evaluate host (init text) variable_values
             = Inr (case int_eval host expr of Some result \<Rightarrow> result | None \<Rightarrow> 0)))
   \<and> (\<not> set (variables (init text)) \<subseteq> dom variable_values \<longrightarrow>
        evaluate host (init text) variable_values = Inl KeyError)"
proof (intro conjI impI)
  assume "set (variables (init text)) \<subseteq> dom variable_values"
  then obtain expr where "eval_string (init text) variable_values = Inr expr"
    using eval_string_total by blast
  then show "\<exists>expr. eval_string (init text) variable_values = Inr expr
         \<and> evaluate host (init text) variable_values
             = Inr (case int_eval host expr of Some result \<Rightarrow> result | None \<Rightarrow> 0)"
    using evaluate_of_eval_string by blast
next
  assume "\<not> set (variables (init text)) \<subseteq> dom variable_values"
  then show "evaluate host (init text) variable_values = Inl KeyError"
    by (simp add: evaluate_def eval_string_def substitute_missing)
qed

theorem evaluate_returns_or_key_error_witness:
  "evaluate no_host (init ''B AND X'') [CHR ''B'' \<mapsto> True, CHR ''X'' \<mapsto> True] = Inr 1
   \<and> evaluate no_host (init ''B AND X'') [CHR ''B'' \<mapsto> True] = Inl KeyError"
proof -
  have vars: "variables (init ''B AND X'') = ''BX''"
    by code_simp
  have full: "set (variables (init ''B AND X'')) \<subseteq> dom [CHR ''B'' \<mapsto> True, CHR ''X'' \<mapsto> True]"
    and part: "\<not> set (variables (init ''B AND X'')) \<subseteq> dom [CHR ''B'' \<mapsto> True]"
    unfolding vars by simp_all
  have str: "eval_string (init ''B AND X'') [CHR ''B'' \<mapsto> True, CHR ''X'' \<mapsto> True] = Inr ''True and True''"
    by code_simp
  have val: "int_eval no_host ''True and True'' = Some 1"
    by code_simp
  from evaluate_returns_or_key_error [of "''B AND X''" "[CHR ''B'' \<mapsto> True, CHR ''X'' \<mapsto> True]" no_host]
    full str val
  have "evaluate no_host (init ''B AND X'') [CHR ''B'' \<mapsto> True, CHR ''X'' \<mapsto> True] = Inr 1"
    by auto
  moreover from evaluate_returns_or_key_error [of "''B AND X''" "[CHR ''B'' \<mapsto> True]" no_host] part
  have "evaluate no_host (init ''B AND X'') [CHR ''B'' \<mapsto> True] = Inl KeyError"
    by blast
  ultimately show ?thesis by blast
qed

text \<open>
  The specification has \<^verbatim>\<open>evaluate\<close> total on partial assignments with a result in
  \<open>{0, 1}\<close>. The expression \<^verbatim>\<open>B\<close> under the empty assignment raises, and the
  expression \<^verbatim>\<open>2\<close> yields 2.
\<close>

theorem evaluate_raises_and_exceeds_one:
  "evaluate no_host (init ''B'') Map.empty = Inl KeyError
   \<and> evaluate no_host (init ''2'') Map.empty = Inr 2"
  by code_simp

section \<open>Properties of the classification\<close>

lemma sum_list_bits_bounds:
  "set rs \<subseteq> {0, 1 :: int} \<Longrightarrow> 0 \<le> sum_list rs \<and> sum_list rs \<le> int (length rs)"
  by (induction rs) auto

lemma sum_list_bits_all_one:
  "set rs \<subseteq> {0, 1 :: int} \<Longrightarrow> sum_list rs = int (length rs) \<longleftrightarrow> (\<forall>r \<in> set rs. r = 1)"
proof (induction rs)
  case Nil
  then show ?case by simp
next
  case (Cons r rs)
  then have r: "r = 0 \<or> r = 1" and rest: "set rs \<subseteq> {0, 1}" by simp_all
  from sum_list_bits_bounds [OF rest] Cons.IH [OF rest] r show ?case
    by (elim disjE) simp_all
qed

lemma sum_list_bits_all_zero:
  "set rs \<subseteq> {0, 1 :: int} \<Longrightarrow> sum_list rs = 0 \<longleftrightarrow> (\<forall>r \<in> set rs. r = 0)"
proof (induction rs)
  case Nil
  then show ?case by simp
next
  case (Cons r rs)
  then have r: "r = 0 \<or> r = 1" and rest: "set rs \<subseteq> {0, 1}" by simp_all
  from sum_list_bits_bounds [OF rest] Cons.IH [OF rest] r show ?case
    by (elim disjE) simp_all
qed

text \<open>
  C2, as the program has it. For every non-empty table whose rows end with a result that
  is 0 or 1, the analysis classifies the expression as a tautology if and only if every
  result is 1, as a contradiction if and only if every result is 0, and as a contingency
  in every other case.
\<close>

theorem classification_of_boolean_table:
  assumes "table \<noteq> []" and "\<forall>row \<in> set table. row \<noteq> [] \<and> last row \<in> {0, 1}"
  shows "\<exists>a. analyze_expression e table = Some a
           \<and> (classification_of a = Tautology \<longleftrightarrow> (\<forall>row \<in> set table. last row = 1))
           \<and> (classification_of a = Contradiction \<longleftrightarrow> (\<forall>row \<in> set table. last row = 0))
           \<and> (classification_of a = Contingency \<longleftrightarrow>
                \<not> (\<forall>row \<in> set table. last row = 1) \<and> \<not> (\<forall>row \<in> set table. last row = 0))"
proof -
  let ?rs = "results_of table"
  let ?ones = "\<forall>row \<in> set table. last row = 1"
  let ?zeros = "\<forall>row \<in> set table. last row = 0"
  have bits: "set ?rs \<subseteq> {0, 1}"
    using assms(2) by (auto simp: results_of_def)
  have all1: "(\<forall>r \<in> set ?rs. r = 1) \<longleftrightarrow> ?ones"
    and all0: "(\<forall>r \<in> set ?rs. r = 0) \<longleftrightarrow> ?zeros"
    by (simp_all add: results_of_def)
  from assms(1) obtain row where "row \<in> set table"
    by (cases table) auto
  then have excl: "\<not> (?ones \<and> ?zeros)"
    by fastforce
  have sum1: "sum_list ?rs = int (length ?rs) \<longleftrightarrow> ?ones"
    using sum_list_bits_all_one [OF bits] all1 by simp
  have sum0: "sum_list ?rs = 0 \<longleftrightarrow> ?zeros"
    using sum_list_bits_all_zero [OF bits] all0 by simp
  have taut: "classify table = Tautology \<longleftrightarrow> ?ones"
    using sum1 by (simp add: classify_def Let_def)
  have contra: "classify table = Contradiction \<longleftrightarrow> ?zeros"
  proof -
    have "classify table = Contradiction
        \<longleftrightarrow> sum_list ?rs \<noteq> int (length ?rs) \<and> sum_list ?rs = 0"
      by (simp add: classify_def Let_def)
    also have "\<dots> \<longleftrightarrow> \<not> ?ones \<and> ?zeros"
      using sum1 sum0 by simp
    also have "\<dots> \<longleftrightarrow> ?zeros"
      using excl by blast
    finally show ?thesis .
  qed
  have conti: "classify table = Contingency \<longleftrightarrow> \<not> ?ones \<and> \<not> ?zeros"
    using sum1 sum0 by (simp add: classify_def Let_def)
  show ?thesis
    using assms(1) taut contra conti by (simp add: analyze_expression_def)
qed

theorem classification_of_boolean_table_witness:
  "map_option classification_of (analyze_expression (init ''B'') [[0, 0], [1, 1]])
   = Some Contingency"
proof -
  have h1: "[[0, 0], [1, 1 :: int]] \<noteq> []" by simp
  have h2: "\<forall>row \<in> set [[0, 0], [1, 1 :: int]]. row \<noteq> [] \<and> last row \<in> {0, 1}" by simp
  from classification_of_boolean_table [OF h1 h2, of "init ''B''"]
  obtain a where "analyze_expression (init ''B'') [[0, 0], [1, 1]] = Some a"
    and "classification_of a = Contingency \<longleftrightarrow>
           \<not> (\<forall>row \<in> set [[0, 0], [1, 1 :: int]]. last row = 1)
           \<and> \<not> (\<forall>row \<in> set [[0, 0], [1, 1 :: int]]. last row = 0)"
    by blast
  then show ?thesis
    by simp
qed

text \<open>
  The classification compares the sum of the results with the number of rows, and a
  result is the integer of whatever the host evaluation yields. The expression
  \<^verbatim>\<open>B AND 2\<close> has the results 0 and 2: the first row is false, and the table is
  classified as a tautology.
\<close>

theorem tautology_with_false_row:
  "create_truth_table no_host (init ''B AND 2'') = Inr [[0, 0], [1, 2]]
   \<and> results_of [[0, 0], [1, 2]] = [0, 2]
   \<and> map_option classification_of (analyze_expression (init ''B AND 2'') [[0, 0], [1, 2]])
       = Some Tautology"
  by code_simp

section \<open>Properties of identify_binary_operation\<close>







section \<open>The program on the expressions of the specification\<close>

text \<open>
  The following theorems hold for every host evaluator: each string evaluated lies inside
  the modelled grammar.
\<close>

text \<open>
  C3. The specification has the small and the capital spelling of a letter denote one
  variable. In the program \<^verbatim>\<open>extract_variables\<close> keeps the case of a letter while
  \<^verbatim>\<open>parse_expression\<close> turns the text into capitals: the expression \<^verbatim>\<open>b\<close> has the
  variable \<^verbatim>\<open>b\<close>, which the parsed text \<^verbatim>\<open>B\<close> does not contain, so nothing is
  substituted and every row evaluates to 0, whereas the expression \<^verbatim>\<open>B\<close> has the variable
  \<^verbatim>\<open>B\<close> and evaluates to its value.
\<close>

theorem lower_case_variable_never_substituted:
  "variables (init ''b'') = ''b'' \<and> variables (init ''B'') = ''B''
   \<and> parsed_expr (init ''b'') = ''B'' \<and> parsed_expr (init ''B'') = ''B''
   \<and> evaluate host (init ''b'') [CHR ''b'' \<mapsto> True] = Inr 0
   \<and> evaluate host (init ''B'') [CHR ''B'' \<mapsto> True] = Inr 1
   \<and> create_truth_table host (init ''b'') = Inr [[0, 0], [1, 0]]
   \<and> create_truth_table host (init ''B'') = Inr [[0, 0], [1, 1]]"
  by code_simp

lemma mixed_case_variable_columns:
  "variables (init ''b AND B'') = ''Bb''
   \<and> create_truth_table host (init ''b AND B'')
       = Inr [[0, 0, 0], [0, 1, 0], [1, 0, 1], [1, 1, 1]]"
  by code_simp

text \<open>
  C4, as the program has it. The text \<^verbatim>\<open>A AND\<close> raises no error: the expression is
  built with an empty variable list and the parsed text \<^verbatim>\<open>A&\<close>, the host evaluation
  of \<^verbatim>\<open>A and\<close> fails, \<^verbatim>\<open>evaluate\<close> returns 0 in its place, and the table is the single
  row of that 0, classified as a contradiction.
\<close>

theorem trailing_operator_defaults_to_zero:
  "init ''A AND'' = \<lparr>expression = ''AAND'', variables = [], parsed_expr = ''A&''\<rparr>
   \<and> eval_string (init ''A AND'') Map.empty = Inr ''A and ''
   \<and> int_eval host ''A and '' = None
   \<and> evaluate host (init ''A AND'') Map.empty = Inr 0
   \<and> generate_truth_table host ''A AND''
       = Generated [[0]]
           (Some \<lparr>classification_of = Contradiction, satisfiable = False,
                   binary_operation = None\<rparr>)"
  by code_simp

text \<open>
  The specification has the same text fail with a parse error and forbids a default
  result. The program reports no error for it.
\<close>

theorem trailing_operator_not_reported:
  "generate_truth_table no_host ''A AND'' \<noteq> ExpressionError KeyError
   \<and> generate_truth_table no_host ''A AND''
       = Generated [[0]]
           (Some \<lparr>classification_of = Contradiction, satisfiable = False,
                   binary_operation = None\<rparr>)"
  by code_simp

text \<open>
  C6. The specification has \<^verbatim>\<open>V OR NOT V\<close> a tautology for every letter \<open>V\<close>. The letter
  \<^verbatim>\<open>A\<close> is in \<open>operators\<close>, so \<^verbatim>\<open>A OR NOT A\<close>, one of the program's own examples, has
  no variable; the name \<^verbatim>\<open>A\<close> is unbound in the host evaluation, which fails, and the
  one row of result 0 is classified as a contradiction.
\<close>

theorem a_or_not_a_is_contradiction:
  "variables (init ''A OR NOT A'') = []
   \<and> eval_string (init ''A OR NOT A'') Map.empty = Inr ''A or  not A''
   \<and> generate_truth_table host ''A OR NOT A''
       = Generated [[0]]
           (Some \<lparr>classification_of = Contradiction, satisfiable = False,
                   binary_operation = None\<rparr>)"
  by code_simp

lemma or_not_tautology_for_variable_letters:
  "\<forall>V \<in> set ''BCGHJKLMPQSVWXYZ''.
     generate_truth_table host (V # '' OR NOT '' @ [V])
       = Generated [[0, 1], [1, 1]]
           (Some \<lparr>classification_of = Tautology, satisfiable = True,
                   binary_operation = None\<rparr>)"
  by code_simp

lemma or_not_contradiction_for_other_letters:
  "\<forall>V \<in> set ''ADEFINORTUabcdefghijklmnopqrstuvwxyz''.
     (case generate_truth_table host (V # '' OR NOT '' @ [V]) of
        Generated rows a \<Rightarrow> map_option classification_of a = Some Contradiction
      | _ \<Rightarrow> False)"
  by code_simp

lemma and_not_contradiction_for_all_letters:
  "\<forall>V \<in> set ''ABCDEFGHIJKLMNOPQRSTUVWXYZabcdefghijklmnopqrstuvwxyz''.
     (case generate_truth_table host (V # '' AND NOT '' @ [V]) of
        Generated rows a \<Rightarrow> map_option classification_of a = Some Contradiction
      | _ \<Rightarrow> False)"
  by code_simp

text \<open>
  C7. The specification has \<^verbatim>\<open>A IMPLIES B\<close> over the variables A, B with the rows of
  material implication. In the program its variable list is B, L, M, P, S (the letters of
  \<^verbatim>\<open>IMPLIES\<close> that \<open>operators\<close> lacks, and not A), the table has 32 rows, every result is
  0, and no binary operation is named.
\<close>

theorem a_implies_b_has_five_variables:
  "variables (init ''A IMPLIES B'') = ''BLMPS''
   \<and> parsed_expr (init ''A IMPLIES B'') = ''A>B''
   \<and> (case generate_truth_table host ''A IMPLIES B'' of
         Generated rows a \<Rightarrow>
           length rows = 32 \<and> results_of rows = replicate 32 0
           \<and> a = Some \<lparr>classification_of = Contradiction, satisfiable = False,
                        binary_operation = None\<rparr>
       | _ \<Rightarrow> False)"
  by code_simp

text \<open>
  The results are 0 because \<^verbatim>\<open>evaluate\<close> replaces \<^verbatim>\<open>=\<close> after it has written
  \<^verbatim>\<open><=\<close> for the implication: the host is given \<^verbatim>\<open>< ==\<close>, a syntax error, for every
  implication, also between two proper variables. The biconditional is evaluated as
  intended.
\<close>

lemma arrow_always_zero:
  "eval_string (init ''B->C'') [CHR ''B'' \<mapsto> False, CHR ''C'' \<mapsto> True] = Inr ''False < ==  True''
   \<and> int_eval host ''False < ==  True'' = None
   \<and> generate_truth_table host ''B->C''
       = Generated [[0, 0, 0], [0, 1, 0], [1, 0, 0], [1, 1, 0]]
           (Some \<lparr>classification_of = Contradiction, satisfiable = False,
                   binary_operation = Some ''Contradiction (False)''\<rparr>)"
  by code_simp

lemma iff_is_biconditional:
  "generate_truth_table host ''B IFF C''
     = Generated [[0, 0, 1], [0, 1, 0], [1, 0, 0], [1, 1, 1]]
         (Some \<lparr>classification_of = Contingency, satisfiable = True,
                 binary_operation = Some ''Biconditional (XNOR)''\<rparr>)"
  by code_simp

end
